theory Spec2Isabelle
  imports Main "HOL-Library.Word"
begin

unbundle bit_operations_syntax

section \<open>Bytes, errors and the external collaborators\<close>

type_synonym byte = "8 word"
type_synonym bytes = "byte list"

text \<open>Go errors are built with \<open>fmt.Errorf\<close>; an error is identified by its message.\<close>

datatype error = Errorf string

text \<open>
  \<open>subtle.ConstantTimeCompare\<close> of the Go standard library: 1 when the two slices have
  the same length and the same contents, 0 otherwise.
\<close>

definition ConstantTimeCompare :: "bytes \<Rightarrow> bytes \<Rightarrow> int" where
  "ConstantTimeCompare x y = (if length x \<noteq> length y then 0 else if x = y then 1 else 0)"

subsection \<open>The keyed hasher\<close>

text \<open>
  A \<open>blake3.Hasher\<close> is an owned accumulator: its key and the bytes absorbed since the
  last reset. The extendable output of the hash is a parameter of the development:
  \<open>xof key input i\<close> is byte \<open>i\<close> of the output stream for the given key and absorbed
  input. \<open>Digest().Read(buf)\<close> fills \<open>buf\<close> with the first \<open>len(buf)\<close> bytes of it.
\<close>

type_synonym xof = "bytes \<Rightarrow> bytes \<Rightarrow> nat \<Rightarrow> byte"

record Hasher =
  h_key :: bytes
  h_data :: bytes

definition NewKeyed :: "bytes \<Rightarrow> error + Hasher" where
  "NewKeyed k =
     (if length k \<noteq> 32 then Inl (Errorf ''invalid key length'')
      else Inr \<lparr>h_key = k, h_data = []\<rparr>)"

definition Reset :: "Hasher \<Rightarrow> Hasher" where
  "Reset h = h\<lparr>h_data := []\<rparr>"

definition Write :: "Hasher \<Rightarrow> bytes \<Rightarrow> Hasher" where
  "Write h bs = h\<lparr>h_data := h_data h @ bs\<rparr>"

definition Digest_Read :: "xof \<Rightarrow> Hasher \<Rightarrow> nat \<Rightarrow> bytes" where
  "Digest_Read f h len = map (f (h_key h) (h_data h)) [0..<len]"

subsection \<open>The curve and the Schnorr proof\<close>

text \<open>
  The package \<open>pkg/math/curve\<close> is consumed through its interface only; its operations
  are the fields of a record that every function below takes as a parameter.
  Points are immutable values. Marshalling can fail, as in the source. \<open>NewScalar\<close> is
  the value of a freshly made scalar and \<open>Invert\<close> the value an inverted scalar takes.
\<close>

record ('p, 's) Curve =
  ActOnBase :: "'s \<Rightarrow> 'p"
  Act :: "'s \<Rightarrow> 'p \<Rightarrow> 'p"
  Add :: "'p \<Rightarrow> 'p \<Rightarrow> 'p"
  Sub :: "'p \<Rightarrow> 'p \<Rightarrow> 'p"
  MarshalBinary :: "'p \<Rightarrow> error + bytes"
  UnmarshalBinary :: "bytes \<Rightarrow> error + 'p"
  Equal :: "'p \<Rightarrow> 'p \<Rightarrow> bool"
  FromHash :: "bytes \<Rightarrow> 's"
  NewScalar :: "'s"
  Invert :: "'s \<Rightarrow> 's"

text \<open>The package \<open>pkg/zk/sch\<close>, likewise: proving and verifying over a transcript \<open>'h\<close>.\<close>

record ('h, 'p, 's, 'pr) Sch =
  NewProof :: "'h \<Rightarrow> 'p \<Rightarrow> 's \<Rightarrow> 'pr"
  Verify_Proof :: "'pr \<Rightarrow> 'h \<Rightarrow> 'p \<Rightarrow> bool"

section \<open>Random OT: setup\<close>

record ('p, 'pr) RandomOTSetupSendMessage =
  msg_B :: 'p
  msg_BProof :: 'pr

record ('p, 's) RandomOTSendSetup =
  ss_b :: 's
  ss_B :: 'p
  ss_bB :: 'p

record 'p RandomOTReceiveSetup =
  rs_B :: 'p

text \<open>The scalar \<open>b\<close> is what \<open>sample.Scalar(rand.Reader, group)\<close> returned.\<close>

definition RandomOTSetupSend ::
  "('h, 'p, 's, 'pr) Sch \<Rightarrow> ('p, 's) Curve \<Rightarrow> 'h \<Rightarrow> 's \<Rightarrow>
     ('p, 'pr) RandomOTSetupSendMessage \<times> ('p, 's) RandomOTSendSetup" where
  "RandomOTSetupSend Z C hash b =
     (let B = ActOnBase C b;
          BProof = NewProof Z hash B b
      in (\<lparr>msg_B = B, msg_BProof = BProof\<rparr>, \<lparr>ss_b = b, ss_B = B, ss_bB = Act C b B\<rparr>))"

definition RandomOTSetupReceive ::
  "('h, 'p, 's, 'pr) Sch \<Rightarrow> 'h \<Rightarrow> ('p, 'pr) RandomOTSetupSendMessage \<Rightarrow>
     error + 'p RandomOTReceiveSetup" where
  "RandomOTSetupReceive Z hash msg =
     (if \<not> Verify_Proof Z (msg_BProof msg) hash (msg_B msg)
      then Inl (Errorf ''RandomOTSetupReceive: Schnorr proof failed to verify'')
      else Inr \<lparr>rs_B = msg_B msg\<rparr>)"

section \<open>Random OT: execution\<close>

text \<open>
  \<open>params.OTBytes\<close> is the parameter \<open>n\<close> of the functions below; a \<open>[OTBytes]byte\<close>
  array is a byte list that the code keeps at length \<open>n\<close>, zero-valued when fresh.
  \<open>safenum.Choice\<close> is a byte holding 0 or 1.
\<close>

type_synonym Choice = byte

definition zero_array :: "nat \<Rightarrow> bytes" where
  "zero_array n = replicate n 0"

record 'p RandomOTReceiever =
  r_hash :: Hasher
  r_choice :: Choice
  r_B :: 'p
  r_randChoice :: bytes
  r_receivedChallenge :: bytes
  r_hh_randChoice :: bytes

record ('p, 's) RandomOTSender =
  s_hash :: Hasher
  s_b :: 's
  s_B :: 'p
  s_bB :: 'p
  s_rand0 :: bytes
  s_rand1 :: bytes
  s_decommit0 :: bytes
  s_decommit1 :: bytes
  s_h_decommit0 :: bytes

record RandomOTReceiveRound1Message =
  ABytes :: bytes

record RandomOTSendRound1Message =
  Challenge :: bytes

record RandomOTReceiveRound2Message =
  Response :: bytes

record RandomOTSendRound2Message =
  Decommit0 :: bytes
  Decommit1 :: bytes

record RandomOTSendResult =
  Rand0 :: bytes
  Rand1 :: bytes

text \<open>The constructors panic when the nonce is not a valid key: the \<open>Inl\<close> branch.\<close>

definition NewRandomOTReceiver ::
  "nat \<Rightarrow> bytes \<Rightarrow> 'p RandomOTReceiveSetup \<Rightarrow> Choice \<Rightarrow> error + 'p RandomOTReceiever" where
  "NewRandomOTReceiver n nonce result choice =
     (case NewKeyed nonce of
        Inl err \<Rightarrow> Inl err
      | Inr h \<Rightarrow> Inr \<lparr>r_hash = h, r_choice = choice, r_B = rs_B result,
                      r_randChoice = zero_array n, r_receivedChallenge = zero_array n,
                      r_hh_randChoice = zero_array n\<rparr>)"

definition NewRandomOTSender ::
  "nat \<Rightarrow> bytes \<Rightarrow> ('p, 's) RandomOTSendSetup \<Rightarrow> error + ('p, 's) RandomOTSender" where
  "NewRandomOTSender n nonce result =
     (case NewKeyed nonce of
        Inl err \<Rightarrow> Inl err
      | Inr h \<Rightarrow> Inr \<lparr>s_hash = h, s_b = ss_b result, s_B = ss_B result, s_bB = ss_bB result,
                      s_rand0 = zero_array n, s_rand1 = zero_array n,
                      s_decommit0 = zero_array n, s_decommit1 = zero_array n,
                      s_h_decommit0 = zero_array n\<rparr>)"

text \<open>
  Every round takes the session by pointer: the model returns the session after the call
  first, then the values the Go function returns, the error last (\<open>None\<close> is \<open>nil\<close>).
  The scalar \<open>a\<close> of the receiver's round 1 is what \<open>sample.Scalar\<close> returned.
\<close>

definition RandomOTReceiever_Round1 ::
  "('p, 's) Curve \<Rightarrow> xof \<Rightarrow> nat \<Rightarrow> 's \<Rightarrow> 'p RandomOTReceiever \<Rightarrow>
     'p RandomOTReceiever \<times> RandomOTReceiveRound1Message \<times> error option" where
  "RandomOTReceiever_Round1 C f n a r =
     (let A = ActOnBase C a in
      case MarshalBinary C A of
        Inl err \<Rightarrow> (r, \<lparr>ABytes = []\<rparr>, Some err)
      | Inr ABytes0 \<Rightarrow>
          (let A' = Add C A (r_B r) in
           case MarshalBinary C A' of
             Inl err \<Rightarrow> (r, \<lparr>ABytes = ABytes0\<rparr>, Some err)
           | Inr APlusBBytes \<Rightarrow>
               (let mask = - r_choice r;
                    ABytes1 = fold (\<lambda>i ab. ab[i := ab ! i XOR (mask AND (ab ! i XOR APlusBBytes ! i))])
                                [0..<min (length ABytes0) (length APlusBBytes)] ABytes0
                in case MarshalBinary C (Act C a (r_B r)) of
                     Inl err \<Rightarrow> (r, \<lparr>ABytes = ABytes1\<rparr>, Some err)
                   | Inr abBytes \<Rightarrow>
                       (let h = Write (r_hash r) abBytes
                        in (r\<lparr>r_hash := h, r_randChoice := Digest_Read f h n\<rparr>,
                            \<lparr>ABytes = ABytes1\<rparr>, None)))))"

definition RandomOTReceiever_Round2 ::
  "xof \<Rightarrow> nat \<Rightarrow> 'p RandomOTReceiever \<Rightarrow> RandomOTSendRound1Message \<Rightarrow>
     'p RandomOTReceiever \<times> RandomOTReceiveRound2Message" where
  "RandomOTReceiever_Round2 f n r msg =
     (let h1 = Write (Reset (r_hash r)) (r_randChoice r);
          Response0 = Digest_Read f h1 n;
          h2 = Write (Reset h1) Response0;
          Response1 = Digest_Read f h2 n;
          mask = - r_choice r;
          Response2 = fold (\<lambda>i rs. rs[i := rs ! i XOR (mask AND Challenge msg ! i)])
                        [0..<length (Challenge msg)] Response1
      in (r\<lparr>r_hash := h2, r_receivedChallenge := Challenge msg, r_hh_randChoice := Response1\<rparr>,
          \<lparr>Response = Response2\<rparr>))"

definition RandomOTReceiever_Round3 ::
  "xof \<Rightarrow> nat \<Rightarrow> 'p RandomOTReceiever \<Rightarrow> RandomOTSendRound2Message \<Rightarrow>
     'p RandomOTReceiever \<times> bytes \<times> error option" where
  "RandomOTReceiever_Round3 f n r msg =
     (let h1 = Write (Reset (r_hash r)) (Decommit0 msg);
          h_decommit0 = Digest_Read f h1 n;
          h2 = Write (Reset h1) (Decommit1 msg);
          h_decommit1 = Digest_Read f h2 n;
          actualChallenge = fold (\<lambda>i ac. ac[i := h_decommit0 ! i XOR h_decommit1 ! i])
                              [0..<n] (zero_array n);
          r' = r\<lparr>r_hash := h2\<rparr>
      in if ConstantTimeCompare (r_receivedChallenge r) actualChallenge \<noteq> 1
         then (r', r_randChoice r, Some (Errorf ''RandomOTReceive Round 3: incorrect decommitment''))
         else
           (let mask = - r_choice r;
                h_decommitChoice = fold (\<lambda>i hc. hc[i := hc ! i XOR (mask AND (hc ! i XOR h_decommit1 ! i))])
                                     [0..<n] h_decommit0
            in if ConstantTimeCompare h_decommitChoice (r_hh_randChoice r) \<noteq> 1
               then (r', r_randChoice r, Some (Errorf ''RandomOTReceive Round 3: incorrect decommitment''))
               else (r', r_randChoice r, None)))"

definition RandomOTSender_Round1 ::
  "('p, 's) Curve \<Rightarrow> xof \<Rightarrow> nat \<Rightarrow> ('p, 's) RandomOTSender \<Rightarrow> RandomOTReceiveRound1Message \<Rightarrow>
     ('p, 's) RandomOTSender \<times> RandomOTSendRound1Message \<times> error option" where
  "RandomOTSender_Round1 C f n r msg =
     (case UnmarshalBinary C (ABytes msg) of
        Inl err \<Rightarrow> (r, \<lparr>Challenge = zero_array n\<rparr>, Some err)
      | Inr A \<Rightarrow>
          (let bA = Act C (s_b r) A;
               h0 = Reset (s_hash r)
           in case MarshalBinary C bA of
                Inl err \<Rightarrow> (r\<lparr>s_hash := h0\<rparr>, \<lparr>Challenge = zero_array n\<rparr>, Some err)
              | Inr bABytes \<Rightarrow>
                  (let h1 = Write h0 bABytes;
                       rand0 = Digest_Read f h1 n;
                       h2 = Reset h1
                   in case MarshalBinary C (Sub C bA (s_bB r)) of
                        Inl err \<Rightarrow> (r\<lparr>s_hash := h2, s_rand0 := rand0\<rparr>,
                                    \<lparr>Challenge = zero_array n\<rparr>, Some err)
                      | Inr bAMinusBBytes \<Rightarrow>
                          (let h3 = Write h2 bAMinusBBytes;
                               rand1 = Digest_Read f h3 n;
                               h4 = Write (Reset h3) rand0;
                               decommit0 = Digest_Read f h4 n;
                               h5 = Write (Reset h4) rand1;
                               decommit1 = Digest_Read f h5 n;
                               h6 = Write (Reset h5) decommit0;
                               h_decommit0 = Digest_Read f h6 n;
                               h7 = Write (Reset h6) decommit1;
                               Challenge0 = Digest_Read f h7 n;
                               Challenge1 = fold (\<lambda>i c. c[i := c ! i XOR h_decommit0 ! i])
                                              [0..<n] Challenge0
                           in (r\<lparr>s_hash := h7, s_rand0 := rand0, s_rand1 := rand1,
                                 s_decommit0 := decommit0, s_decommit1 := decommit1,
                                 s_h_decommit0 := h_decommit0\<rparr>,
                               \<lparr>Challenge = Challenge1\<rparr>, None)))))"

definition RandomOTSender_Round2 ::
  "nat \<Rightarrow> ('p, 's) RandomOTSender \<Rightarrow> RandomOTReceiveRound2Message \<Rightarrow>
     ('p, 's) RandomOTSender \<times> RandomOTSendRound2Message \<times> RandomOTSendResult \<times> error option" where
  "RandomOTSender_Round2 n r msg =
     (if ConstantTimeCompare (Response msg) (s_h_decommit0 r) \<noteq> 1
      then (r, \<lparr>Decommit0 = zero_array n, Decommit1 = zero_array n\<rparr>,
            \<lparr>Rand0 = zero_array n, Rand1 = zero_array n\<rparr>,
            Some (Errorf ''RandomOTSender Round2: invalid response''))
      else (r, \<lparr>Decommit0 = s_decommit0 r, Decommit1 = s_decommit1 r\<rparr>,
            \<lparr>Rand0 = s_rand0 r, Rand1 = s_rand1 r\<rparr>, None))"


text \<open>
  The order of the rounds is fixed: receiver round 1, sender round 1, receiver round 2,
  sender round 2, receiver round 3. \<open>run_protocol\<close> is that composition over one setup
  and one nonce, stopping at the first error. It returns the receiver's pad, the sender's
  result, the receiver's round-2 message and the sender's session after its round 1.
\<close>

definition run_protocol ::
  "('h, 'p, 's, 'pr) Sch \<Rightarrow> ('p, 's) Curve \<Rightarrow> xof \<Rightarrow> nat \<Rightarrow> 'h \<Rightarrow> bytes \<Rightarrow> 's \<Rightarrow> 's \<Rightarrow> Choice \<Rightarrow>
     error + (bytes \<times> RandomOTSendResult \<times> RandomOTReceiveRound2Message \<times> ('p, 's) RandomOTSender)" where
  "run_protocol Z C f n hash nonce b a choice =
     (case RandomOTSetupSend Z C hash b of (setupMsg, sendSetup) \<Rightarrow>
      case RandomOTSetupReceive Z hash setupMsg of Inl err \<Rightarrow> Inl err | Inr receiveSetup \<Rightarrow>
      case NewRandomOTSender n nonce sendSetup of Inl err \<Rightarrow> Inl err | Inr s0 \<Rightarrow>
      case NewRandomOTReceiver n nonce receiveSetup choice of Inl err \<Rightarrow> Inl err | Inr r0 \<Rightarrow>
      case RandomOTReceiever_Round1 C f n a r0 of
        (r1, msgR1, Some err) \<Rightarrow> Inl err
      | (r1, msgR1, None) \<Rightarrow>
      case RandomOTSender_Round1 C f n s0 msgR1 of
        (s1, msgS1, Some err) \<Rightarrow> Inl err
      | (s1, msgS1, None) \<Rightarrow>
      case RandomOTReceiever_Round2 f n r1 msgS1 of (r2, msgR2) \<Rightarrow>
      case RandomOTSender_Round2 n s1 msgR2 of
        (s2, msgS2, res, Some err) \<Rightarrow> Inl err
      | (s2, msgS2, res, None) \<Rightarrow>
      case RandomOTReceiever_Round3 f n r2 msgS2 of
        (r3, pad, Some err) \<Rightarrow> Inl err
      | (r3, pad, None) \<Rightarrow> Inr (pad, res, msgR2, s1))"

subsection \<open>Notions used to state the properties\<close>

text \<open>The keyed hash of one input, read at the output length \<open>n\<close>: the spec's \<open>H\<close>.\<close>

definition keyed_hash :: "xof \<Rightarrow> nat \<Rightarrow> bytes \<Rightarrow> bytes \<Rightarrow> bytes" where
  "keyed_hash f n k x = map (f k x) [0..<n]"

text \<open>
  What the protocol needs of the curve: scalar multiplication commutes on the base point
  and distributes over addition, subtraction undoes addition, and marshalling succeeds
  with a fixed length \<open>len\<close>.
\<close>

definition curve_laws :: "('p, 's) Curve \<Rightarrow> nat \<Rightarrow> bool" where
  "curve_laws C len =
     ((\<forall>a b. Act C b (ActOnBase C a) = Act C a (ActOnBase C b)) \<and>
      (\<forall>s P Q. Act C s (Add C P Q) = Add C (Act C s P) (Act C s Q)) \<and>
      (\<forall>P Q. Sub C (Add C P Q) Q = P) \<and>
      (\<forall>P. \<exists>bs. MarshalBinary C P = Inr bs \<and> length bs = len))"

text \<open>The point \<open>P\<close> survives the wire: its encoding decodes to it.\<close>

definition roundtrips :: "('p, 's) Curve \<Rightarrow> 'p \<Rightarrow> bool" where
  "roundtrips C P =
     (case MarshalBinary C P of Inl err \<Rightarrow> False | Inr bs \<Rightarrow> UnmarshalBinary C bs = Inr P)"

text \<open>The bytes of a point whose marshalling succeeds.\<close>

definition enc :: "('p, 's) Curve \<Rightarrow> 'p \<Rightarrow> bytes" where
  "enc C P = (case MarshalBinary C P of Inl err \<Rightarrow> [] | Inr bs \<Rightarrow> bs)"

definition valid_choice :: "Choice \<Rightarrow> bool" where
  "valid_choice c = (c = 0 \<or> c = 1)"

section \<open>ECDSA signatures\<close>

text \<open>
  A \<open>curve.Scalar\<close> is a reference to a mutable object: \<open>Set\<close>, \<open>Invert\<close> and \<open>Negate\<close>
  change the object they are called on, and assigning a scalar copies the reference.
  (The spec has scalars "immutable except through explicit algebraic operations"; the
  code calls \<open>S.Negate()\<close> for its effect alone and copies \<open>sig.S\<close> before \<open>Invert\<close>.)
  The scalar objects live in a store, a list indexed by address. Points and the scalars
  that a function makes for itself and never shares (\<open>m\<close>, \<open>r\<close>) are plain values.
\<close>

type_synonym addr = nat
type_synonym 's store = "'s list"

record 'p Signature =
  sig_R :: 'p
  sig_S :: addr

text \<open>
  The accessors of points and scalars that the signature code uses: the scalar of a
  point's X coordinate, the 32-byte forms, the parity of Y, the half-order test and the
  value a negated scalar takes.
\<close>

record ('p, 's) Repr =
  XScalar :: "'p \<Rightarrow> 's"
  XBytes :: "'p \<Rightarrow> bytes"
  IsOddYBit :: "'p \<Rightarrow> 32 word"
  Bytes :: "'s \<Rightarrow> bytes"
  IsOverHalfOrder :: "'s \<Rightarrow> bool"
  Negate :: "'s \<Rightarrow> 's"

definition compactSigSize :: nat where
  "compactSigSize = 65"

text \<open>\<open>copy(dst[lo:hi], src)\<close>: copies as many bytes as both slices have.\<close>

definition copy_slice :: "bytes \<Rightarrow> nat \<Rightarrow> nat \<Rightarrow> bytes \<Rightarrow> bytes" where
  "copy_slice dst lo hi src =
     (let k = min (hi - lo) (length src)
      in take lo dst @ take k src @ drop (lo + k) dst)"

text \<open>
  \<open>Verify\<close>: \<open>group.NewScalar().Set(sig.S).Invert()\<close> makes a new scalar object, sets it
  to the value of \<open>sig.S\<close> and inverts the new object.
\<close>

definition Verify ::
  "('p, 's) Curve \<Rightarrow> ('p, 's) Repr \<Rightarrow> 's store \<Rightarrow> 'p Signature \<Rightarrow> 'p \<Rightarrow> bytes \<Rightarrow> 's store \<times> bool" where
  "Verify C E \<sigma> sig X hash =
     (let m = FromHash C hash;
          sInv = length \<sigma>;
          \<sigma>1 = \<sigma> @ [NewScalar C];
          \<sigma>2 = \<sigma>1[sInv := \<sigma>1 ! sig_S sig];
          \<sigma>3 = \<sigma>2[sInv := Invert C (\<sigma>2 ! sInv)];
          mG = ActOnBase C m;
          r = XScalar E (sig_R sig);
          rX = Act C r X;
          R2 = Add C mG rX;
          R2' = Act C (\<sigma>3 ! sInv) R2
      in (\<sigma>3, Equal C R2' (sig_R sig)))"

text \<open>\<open>ToCompactEth\<close> as the file defines it first (lines 36 to 54).\<close>

definition ToCompactEth :: "('p, 's) Repr \<Rightarrow> 's store \<Rightarrow> 'p Signature \<Rightarrow> 's store \<times> bytes" where
  "ToCompactEth E \<sigma> sig =
     (let b0 = replicate compactSigSize (0 :: byte);
          bytesR = XBytes E (sig_R sig);
          bytesS = Bytes E (\<sigma> ! sig_S sig);
          b1 = copy_slice b0 0 32 bytesR;
          b2 = copy_slice b1 32 64 bytesS;
          recoveryID = (ucast (IsOddYBit E (sig_R sig)) :: byte);
          recoveryID' = (if IsOverHalfOrder E (\<sigma> ! sig_S sig) then recoveryID XOR 0x01 else recoveryID)
      in (\<sigma>, b2[64 := recoveryID']))"

text \<open>
  \<open>ToCompactEth\<close> as the file defines it second (lines 90 to 111): \<open>S := sig.S\<close> copies
  the reference, so \<open>S.Negate()\<close> negates the scalar object of the signature.
\<close>

definition ToCompactEth2 :: "('p, 's) Repr \<Rightarrow> 's store \<Rightarrow> 'p Signature \<Rightarrow> 's store \<times> bytes" where
  "ToCompactEth2 E \<sigma> sig =
     (let b0 = replicate compactSigSize (0 :: byte);
          R = sig_R sig;
          S = sig_S sig;
          recoveryID = (ucast (IsOddYBit E R) :: byte);
          over = IsOverHalfOrder E (XScalar E R);
          recoveryID' = (if over then recoveryID XOR 0x01 else recoveryID);
          \<sigma>' = (if over then \<sigma>[S := Negate E (\<sigma> ! S)] else \<sigma>);
          bytesR = XBytes E R;
          bytesS = Bytes E (\<sigma>' ! S);
          b1 = copy_slice b0 0 32 bytesR;
          b2 = copy_slice b1 32 64 bytesS
      in (\<sigma>', b2[64 := recoveryID']))"

text \<open>
  The compact encoding in the spec's words: the X coordinate of R, then S normalised to
  its low form (negated exactly when it exceeds half the group order), then a recovery id
  that is the parity of R's Y coordinate XORed with a flag set when S was negated.
\<close>

definition compact_spec :: "('p, 's) Repr \<Rightarrow> 'p \<Rightarrow> 's \<Rightarrow> bytes" where
  "compact_spec E R s =
     (let negated = IsOverHalfOrder E s;
          lowS = (if negated then Negate E s else s);
          parity = (ucast (IsOddYBit E R) :: byte)
      in XBytes E R @ Bytes E lowS @ [parity XOR (if negated then 1 else 0)])"

section \<open>Concrete collaborators\<close>

text \<open>
  A small instance of every parameter, to run the definitions on: the additive group of
  bytes with generator 1, each point encoded as its single byte, a Schnorr scheme whose
  proof is the public point itself, and an output stream that mixes key, input and index.
\<close>

definition byte_curve :: "(byte, byte) Curve" where
  "byte_curve =
     \<lparr>ActOnBase = (\<lambda>s. s), Act = (\<lambda>s P. s * P), Add = (\<lambda>P Q. P + Q), Sub = (\<lambda>P Q. P - Q),
      MarshalBinary = (\<lambda>P. Inr [P]),
      UnmarshalBinary = (\<lambda>bs. case bs of [x] \<Rightarrow> Inr x | _ \<Rightarrow> Inl (Errorf ''invalid point'')),
      Equal = (\<lambda>P Q. P = Q), FromHash = (\<lambda>h. of_nat (length h)), NewScalar = 0,
      Invert = (\<lambda>s. s ^ 63)\<rparr>"

definition byte_repr :: "(byte, byte) Repr" where
  "byte_repr =
     \<lparr>XScalar = (\<lambda>P. P), XBytes = (\<lambda>P. [P]), IsOddYBit = (\<lambda>P. ucast (P AND 1)),
      Bytes = (\<lambda>s. [s]), IsOverHalfOrder = (\<lambda>s. 128 < s), Negate = (\<lambda>s. - s)\<rparr>"

definition byte_sch :: "(unit, byte, byte, byte) Sch" where
  "byte_sch = \<lparr>NewProof = (\<lambda>h B b. B), Verify_Proof = (\<lambda>pr h B. pr = B)\<rparr>"

definition byte_xof :: xof where
  "byte_xof k x i = of_nat (length k) + sum_list x + of_nat i"

definition nonce32 :: bytes where
  "nonce32 = replicate 32 7"

text \<open>
  Modelled from the spec: the accessors of \<open>pkg/math/curve\<close> for secp256k1, which is not
  among the sources. A point is its affine coordinates, a scalar a number below the group
  order; the 32-byte forms are big-endian; a scalar is over half the order when it
  exceeds the order divided by two, and negation is taken modulo the order.
\<close>

definition secp256k1_N :: nat where
  "secp256k1_N = 0xFFFFFFFFFFFFFFFFFFFFFFFFFFFFFFFEBAAEDCE6AF48A03BBFD25E8CD0364141"

definition be32 :: "nat \<Rightarrow> bytes" where
  "be32 x = map (\<lambda>i. of_nat (x div 256 ^ (31 - i))) [0..<32]"

definition secp256k1_repr :: "(nat \<times> nat, nat) Repr" where
  "secp256k1_repr =
     \<lparr>XScalar = (\<lambda>P. fst P mod secp256k1_N), XBytes = (\<lambda>P. be32 (fst P)),
      IsOddYBit = (\<lambda>P. of_nat (snd P mod 2)), Bytes = be32,
      IsOverHalfOrder = (\<lambda>s. secp256k1_N div 2 < s),
      Negate = (\<lambda>s. (secp256k1_N - s) mod secp256k1_N)\<rparr>"

text \<open>The generator of secp256k1 and its double, as affine coordinates.\<close>

definition secp256k1_G :: "nat \<times> nat" where
  "secp256k1_G =
     (0x79BE667EF9DCBBAC55A06295CE870B07029BFCDB2DCE28D959F2815B16F81798,
      0x483ADA7726A3C4655DA4FBFC0E1108A8FD17B448A68554199C47D08FFB10D4B8)"

definition secp256k1_2G :: "nat \<times> nat" where
  "secp256k1_2G =
     (0xC6047F9441ED7D6D3045406E95C07CD85C778E4B8CEF3CA7ABAC09B95C709EE5,
      0x1AE168FEA63DC339A3C58419466CEAEEF7F632653266D0E1236431A950CFE52A)"

text \<open>Two sessions in the middle of an execution, with two-byte arrays.\<close>

definition sender_example :: "(byte, byte) RandomOTSender" where
  "sender_example =
     \<lparr>s_hash = \<lparr>h_key = nonce32, h_data = []\<rparr>, s_b = 5, s_B = 5, s_bB = 25,
      s_rand0 = [1, 2], s_rand1 = [3, 4], s_decommit0 = [5, 6], s_decommit1 = [7, 8],
      s_h_decommit0 = [9, 10]\<rparr>"

definition receiver_example :: "byte RandomOTReceiever" where
  "receiver_example =
     \<lparr>r_hash = \<lparr>h_key = nonce32, h_data = []\<rparr>, r_choice = 1, r_B = 5,
      r_randChoice = [1, 2], r_receivedChallenge = [6, 6], r_hh_randChoice = [34, 35]\<rparr>"

section \<open>Properties of the building blocks\<close>

lemma ConstantTimeCompare_eq: "(ConstantTimeCompare x y \<noteq> 1) = (x \<noteq> y)"
  by (auto simp: ConstantTimeCompare_def)

lemma Digest_Read_keyed_hash: "Digest_Read f (Write (Reset h) x) n = keyed_hash f n (h_key h) x"
  by (simp add: Digest_Read_def Write_def Reset_def keyed_hash_def)

lemma h_key_Write_Reset: "h_key (Write (Reset h) x) = h_key h"
  by (simp add: Write_def Reset_def)

lemma length_keyed_hash: "length (keyed_hash f n k x) = n"
  by (simp add: keyed_hash_def)

lemma Reset_Write: "Reset (Write h x) = Reset h"
  by (simp add: Reset_def Write_def)

lemma Reset_Reset: "Reset (Reset h) = Reset h"
  by (simp add: Reset_def)


text \<open>
  A loop \<open>for i := 0; i < n; i++ { xs[i] = g(i, xs[i]) }\<close> rewrites the first \<open>n\<close>
  cells, each from its own old value.
\<close>

lemma fold_index_update:
  "n \<le> length xs \<Longrightarrow>
   fold (\<lambda>i r. r[i := g i (r ! i)]) [0..<n] xs =
   map (\<lambda>i. if i < n then g i (xs ! i) else xs ! i) [0..<length xs]"
proof (induction n)
  case 0
  then show ?case by (simp add: map_nth)
next
  case (Suc n)
  then have n: "n < length xs" by simp
  with Suc have IH: "fold (\<lambda>i r. r[i := g i (r ! i)]) [0..<n] xs =
     map (\<lambda>i. if i < n then g i (xs ! i) else xs ! i) [0..<length xs]" by simp
  show ?case
    unfolding upt_Suc_append [OF le0] fold_append o_apply IH
    using n by (auto intro!: nth_equalityI simp: nth_list_update)
qed

lemma actualChallenge_loop:
  "length a = n \<Longrightarrow> length b = n \<Longrightarrow>
   fold (\<lambda>i ac. ac[i := a ! i XOR b ! i]) [0..<n] (zero_array n) = map2 (\<lambda>x y. x XOR y) a b"
  using fold_index_update [where g = "\<lambda>i _. a ! i XOR b ! i" and n = n and xs = "zero_array n"]
  by (auto intro!: nth_equalityI simp: zero_array_def)

lemma xor_loop:
  "length c = n \<Longrightarrow> length b = n \<Longrightarrow>
   fold (\<lambda>i c. c[i := c ! i XOR b ! i]) [0..<n] c = map2 (\<lambda>x y. x XOR y) c b"
  using fold_index_update [where g = "\<lambda>i x. x XOR b ! i" and n = n and xs = c]
  by (auto intro!: nth_equalityI)

lemma select_loop:
  fixes mask :: byte
  assumes "length a = n" "length b = n"
  shows "fold (\<lambda>i hc. hc[i := hc ! i XOR (mask AND (hc ! i XOR b ! i))]) [0..<n] a =
         map2 (\<lambda>x y. x XOR (mask AND (x XOR y))) a b"
  using fold_index_update [where g = "\<lambda>i x. x XOR (mask AND (x XOR b ! i))" and n = n and xs = a] assms
  by (auto intro!: nth_equalityI)

lemma mask_loop:
  fixes mask :: byte
  assumes "length a = n" "length b = n"
  shows "fold (\<lambda>i rs. rs[i := rs ! i XOR (mask AND b ! i)]) [0..<n] a =
         map2 (\<lambda>x y. x XOR (mask AND y)) a b"
  using fold_index_update [where g = "\<lambda>i x. x XOR (mask AND b ! i)" and n = n and xs = a] assms
  by (auto intro!: nth_equalityI)

lemma map2_left: "length a = length b \<Longrightarrow> map2 (\<lambda>x y. x) a b = a"
  by (auto intro!: nth_equalityI)

lemma map2_right: "length a = length b \<Longrightarrow> map2 (\<lambda>x y. y) a b = b"
  by (auto intro!: nth_equalityI)

lemma map2_xor_cancel:
  fixes x z :: bytes
  shows "length x = length z \<Longrightarrow> map2 (\<lambda>a b. a XOR b) x (map2 (\<lambda>a b. a XOR b) x z) = z"
  by (auto intro!: nth_equalityI)

lemma map2_xor_commute:
  fixes x z :: bytes
  shows "map2 (\<lambda>a b. a XOR b) x z = map2 (\<lambda>a b. a XOR b) z x"
  by (auto intro!: nth_equalityI simp: xor.commute)

section \<open>The sender's round 2\<close>

text \<open>
  C4. The sender's round 2 returns an error exactly when the received response differs
  from the stored \<open>h_decommit0\<close>, and the error is the invalid-response error; when the
  response matches, the message carries \<open>decommit0\<close> and \<open>decommit1\<close> and the result is
  \<open>rand0\<close> and \<open>rand1\<close> as round 1 stored them.
\<close>

theorem Sender_Round2_fails_iff:
  "(snd (snd (snd (RandomOTSender_Round2 n r msg))) \<noteq> None) = (Response msg \<noteq> s_h_decommit0 r) \<and>
   (Response msg \<noteq> s_h_decommit0 r \<longrightarrow>
      snd (snd (snd (RandomOTSender_Round2 n r msg))) =
        Some (Errorf ''RandomOTSender Round2: invalid response'')) \<and>
   (Response msg = s_h_decommit0 r \<longrightarrow>
      fst (snd (RandomOTSender_Round2 n r msg)) =
        \<lparr>Decommit0 = s_decommit0 r, Decommit1 = s_decommit1 r\<rparr> \<and>
      fst (snd (snd (RandomOTSender_Round2 n r msg))) =
        \<lparr>Rand0 = s_rand0 r, Rand1 = s_rand1 r\<rparr>)"
  by (simp add: RandomOTSender_Round2_def ConstantTimeCompare_eq)

theorem Sender_Round2_fails_iff_witness:
  "Response \<lparr>Response = [9, 10]\<rparr> = s_h_decommit0 sender_example \<and>
   snd (snd (snd (RandomOTSender_Round2 2 sender_example \<lparr>Response = [9, 10]\<rparr>))) = None \<and>
   fst (snd (RandomOTSender_Round2 2 sender_example \<lparr>Response = [9, 10]\<rparr>)) =
     \<lparr>Decommit0 = [5, 6], Decommit1 = [7, 8]\<rparr> \<and>
   fst (snd (snd (RandomOTSender_Round2 2 sender_example \<lparr>Response = [9, 10]\<rparr>))) =
     \<lparr>Rand0 = [1, 2], Rand1 = [3, 4]\<rparr> \<and>
   Response \<lparr>Response = [9, 11]\<rparr> \<noteq> s_h_decommit0 sender_example \<and>
   snd (snd (snd (RandomOTSender_Round2 2 sender_example \<lparr>Response = [9, 11]\<rparr>))) =
     Some (Errorf ''RandomOTSender Round2: invalid response'')"
  using Sender_Round2_fails_iff [of 2 sender_example "\<lparr>Response = [9, 10]\<rparr>"]
        Sender_Round2_fails_iff [of 2 sender_example "\<lparr>Response = [9, 11]\<rparr>"]
  by (simp add: sender_example_def)

text \<open>
  C8. When the response does not match \<open>h_decommit0\<close>, the round-2 message and the result
  that the sender returns hold zero arrays only, and the sender's session is unchanged.
\<close>

theorem Sender_Round2_error_reveals_nothing:
  "Response msg \<noteq> s_h_decommit0 r \<Longrightarrow>
   RandomOTSender_Round2 n r msg =
     (r, \<lparr>Decommit0 = replicate n 0, Decommit1 = replicate n 0\<rparr>,
      \<lparr>Rand0 = replicate n 0, Rand1 = replicate n 0\<rparr>,
      Some (Errorf ''RandomOTSender Round2: invalid response''))"
  by (simp add: RandomOTSender_Round2_def ConstantTimeCompare_eq zero_array_def)

theorem Sender_Round2_error_reveals_nothing_witness:
  "Response \<lparr>Response = [9, 11]\<rparr> \<noteq> s_h_decommit0 sender_example \<and>
   RandomOTSender_Round2 2 sender_example \<lparr>Response = [9, 11]\<rparr> =
     (sender_example, \<lparr>Decommit0 = [0, 0], Decommit1 = [0, 0]\<rparr>,
      \<lparr>Rand0 = [0, 0], Rand1 = [0, 0]\<rparr>,
      Some (Errorf ''RandomOTSender Round2: invalid response''))"
proof -
  have ne: "Response \<lparr>Response = [9, 11]\<rparr> \<noteq> s_h_decommit0 sender_example"
    by (simp add: sender_example_def)
  show ?thesis
    using ne Sender_Round2_error_reveals_nothing [OF ne, of 2]
    by (simp add: numeral_2_eq_2)
qed

section \<open>The receiver's round 3\<close>

lemma Receiver_Round3_error:
  assumes "valid_choice (r_choice r)"
  shows "snd (snd (RandomOTReceiever_Round3 f n r msg)) =
     (if map2 (\<lambda>x y. x XOR y) (keyed_hash f n (h_key (r_hash r)) (Decommit0 msg))
                                (keyed_hash f n (h_key (r_hash r)) (Decommit1 msg))
           \<noteq> r_receivedChallenge r
         \<or> keyed_hash f n (h_key (r_hash r)) (if r_choice r = 1 then Decommit1 msg else Decommit0 msg)
           \<noteq> r_hh_randChoice r
      then Some (Errorf ''RandomOTReceive Round 3: incorrect decommitment'')
      else None)"
proof -
  let ?k = "h_key (r_hash r)"
  let ?h0 = "keyed_hash f n ?k (Decommit0 msg)"
  let ?h1 = "keyed_hash f n ?k (Decommit1 msg)"
  have len: "length ?h0 = n" "length ?h1 = n" by (simp_all add: length_keyed_hash)
  have sel: "fold (\<lambda>i hc. hc[i := hc ! i XOR (- r_choice r AND (hc ! i XOR ?h1 ! i))]) [0..<n] ?h0 =
             (if r_choice r = 1 then ?h1 else ?h0)"
    using assms len by (auto simp: valid_choice_def select_loop map2_left map2_right)
  show ?thesis
    using sel
    by (auto simp: RandomOTReceiever_Round3_def Let_def ConstantTimeCompare_eq
        Digest_Read_keyed_hash h_key_Write_Reset actualChallenge_loop [OF len])
qed

lemma Receiver_Round3_pad: "fst (snd (RandomOTReceiever_Round3 f n r msg)) = r_randChoice r"
  by (simp add: RandomOTReceiever_Round3_def Let_def)

text \<open>
  C9. The first value that the receiver's round 3 returns is the stored pad \<open>randChoice\<close>
  on every path, the two failing ones included.
\<close>

theorem Receiver_Round3_always_returns_randChoice:
  "fst (snd (RandomOTReceiever_Round3 f n r msg)) = r_randChoice r"
  by (rule Receiver_Round3_pad)

theorem Receiver_Round3_always_returns_randChoice_witness:
  "fst (snd (RandomOTReceiever_Round3 byte_xof 2 receiver_example
               \<lparr>Decommit0 = [1, 1], Decommit1 = [2, 2]\<rparr>)) = [1, 2]"
  using Receiver_Round3_always_returns_randChoice
          [of byte_xof 2 receiver_example "\<lparr>Decommit0 = [1, 1], Decommit1 = [2, 2]\<rparr>"]
  by (simp add: receiver_example_def)

text \<open>
  C5. For a choice bit of 0 or 1, the receiver's round 3 fails exactly when
  \<open>H(Decommit0) XOR H(Decommit1)\<close> differs from the stored challenge or the hash of the
  decommitment selected by the choice differs from the cached \<open>hh_randChoice\<close>; both
  causes give the same error, and on success the pad \<open>randChoice\<close> is returned.
\<close>

theorem Receiver_Round3_fails_iff:
  assumes "valid_choice (r_choice r)"
  shows "snd (snd (RandomOTReceiever_Round3 f n r msg)) =
     (if map2 (\<lambda>x y. x XOR y) (keyed_hash f n (h_key (r_hash r)) (Decommit0 msg))
                                (keyed_hash f n (h_key (r_hash r)) (Decommit1 msg))
           \<noteq> r_receivedChallenge r
         \<or> keyed_hash f n (h_key (r_hash r)) (if r_choice r = 1 then Decommit1 msg else Decommit0 msg)
           \<noteq> r_hh_randChoice r
      then Some (Errorf ''RandomOTReceive Round 3: incorrect decommitment'')
      else None) \<and>
    (snd (snd (RandomOTReceiever_Round3 f n r msg)) = None \<longrightarrow>
       fst (snd (RandomOTReceiever_Round3 f n r msg)) = r_randChoice r)"
  using Receiver_Round3_error [OF assms, of f n msg] Receiver_Round3_pad [of f n r msg]
  by simp

theorem Receiver_Round3_fails_iff_witness:
  "valid_choice (r_choice receiver_example) \<and>
   snd (snd (RandomOTReceiever_Round3 byte_xof 2 receiver_example
               \<lparr>Decommit0 = [2, 2], Decommit1 = [1, 1]\<rparr>)) = None \<and>
   fst (snd (RandomOTReceiever_Round3 byte_xof 2 receiver_example
               \<lparr>Decommit0 = [2, 2], Decommit1 = [1, 1]\<rparr>)) = [1, 2] \<and>
   snd (snd (RandomOTReceiever_Round3 byte_xof 2 receiver_example
               \<lparr>Decommit0 = [1, 1], Decommit1 = [2, 2]\<rparr>)) =
     Some (Errorf ''RandomOTReceive Round 3: incorrect decommitment'')"
proof -
  have vc: "valid_choice (r_choice receiver_example)"
    by (simp add: valid_choice_def receiver_example_def)
  have kh: "keyed_hash byte_xof 2 nonce32 [2, 2] = [36, 37]"
           "keyed_hash byte_xof 2 nonce32 [1, 1] = [34, 35]"
    by (simp_all add: keyed_hash_def byte_xof_def nonce32_def numeral_2_eq_2)
  show ?thesis
    using vc
      Receiver_Round3_fails_iff [OF vc, of byte_xof 2 "\<lparr>Decommit0 = [2, 2], Decommit1 = [1, 1]\<rparr>"]
      Receiver_Round3_fails_iff [OF vc, of byte_xof 2 "\<lparr>Decommit0 = [1, 1], Decommit1 = [2, 2]\<rparr>"]
    by (simp add: receiver_example_def kh)
qed

section \<open>Setup\<close>

text \<open>
  C6. \<open>RandomOTSetupReceive\<close> returns an error exactly when the Schnorr proof of the
  message does not verify against the point \<open>B\<close> of the message; otherwise it returns
  the receiver setup that holds that point and nothing else.
\<close>

theorem SetupReceive_fails_iff:
  "RandomOTSetupReceive Z hash msg =
     (if Verify_Proof Z (msg_BProof msg) hash (msg_B msg)
      then Inr \<lparr>rs_B = msg_B msg\<rparr>
      else Inl (Errorf ''RandomOTSetupReceive: Schnorr proof failed to verify''))"
  by (simp add: RandomOTSetupReceive_def)

theorem SetupReceive_fails_iff_witness:
  "RandomOTSetupReceive byte_sch () \<lparr>msg_B = 5, msg_BProof = 5\<rparr> = Inr \<lparr>rs_B = 5\<rparr> \<and>
   RandomOTSetupReceive byte_sch () \<lparr>msg_B = 5, msg_BProof = 6\<rparr> =
     Inl (Errorf ''RandomOTSetupReceive: Schnorr proof failed to verify'')"
  using SetupReceive_fails_iff [of byte_sch "()" "\<lparr>msg_B = 5, msg_BProof = 5\<rparr>"]
        SetupReceive_fails_iff [of byte_sch "()" "\<lparr>msg_B = 5, msg_BProof = 6\<rparr>"]
  by (simp add: byte_sch_def)

section \<open>An honest execution\<close>

lemma Marshal_enc: "curve_laws C len \<Longrightarrow> MarshalBinary C P = Inr (enc C P)"
proof -
  assume "curve_laws C len"
  then obtain bs where "MarshalBinary C P = Inr bs"
    unfolding curve_laws_def by blast
  then show ?thesis by (simp add: enc_def)
qed

lemma length_enc: "curve_laws C len \<Longrightarrow> length (enc C P) = len"
proof -
  assume "curve_laws C len"
  then obtain bs where "MarshalBinary C P = Inr bs" "length bs = len"
    unfolding curve_laws_def by blast
  then show ?thesis by (simp add: enc_def)
qed

lemma Receiver_Round1_ok:
  assumes laws: "curve_laws C len" and vc: "valid_choice (r_choice r)"
  shows "RandomOTReceiever_Round1 C f n a r =
     (r\<lparr>r_hash := Write (r_hash r) (enc C (Act C a (r_B r))),
        r_randChoice := Digest_Read f (Write (r_hash r) (enc C (Act C a (r_B r)))) n\<rparr>,
      \<lparr>ABytes = enc C (if r_choice r = 0 then ActOnBase C a else Add C (ActOnBase C a) (r_B r))\<rparr>,
      None)"
proof -
  let ?eA = "enc C (ActOnBase C a)"
  let ?eAB = "enc C (Add C (ActOnBase C a) (r_B r))"
  have len: "length ?eA = len" "length ?eAB = len"
    using laws by (simp_all add: length_enc)
  have sel: "fold (\<lambda>i ab. ab[i := ab ! i XOR (- r_choice r AND (ab ! i XOR ?eAB ! i))])
               [0..<min (length ?eA) (length ?eAB)] ?eA =
             (if r_choice r = 0 then ?eA else ?eAB)"
    using vc len by (auto simp: valid_choice_def select_loop map2_left map2_right)
  show ?thesis
    unfolding RandomOTReceiever_Round1_def Let_def Marshal_enc [OF laws] sum.case sel
    by simp
qed

lemma Sender_Round1_ok:
  assumes laws: "curve_laws C len" and dec: "UnmarshalBinary C (ABytes msg) = Inr A"
  shows "RandomOTSender_Round1 C f n r msg =
     (let k = h_key (s_hash r);
          rand0 = keyed_hash f n k (enc C (Act C (s_b r) A));
          rand1 = keyed_hash f n k (enc C (Sub C (Act C (s_b r) A) (s_bB r)));
          decommit0 = keyed_hash f n k rand0;
          decommit1 = keyed_hash f n k rand1;
          h_decommit0 = keyed_hash f n k decommit0
      in (r\<lparr>s_hash := Write (Reset (s_hash r)) decommit1, s_rand0 := rand0, s_rand1 := rand1,
            s_decommit0 := decommit0, s_decommit1 := decommit1, s_h_decommit0 := h_decommit0\<rparr>,
          \<lparr>Challenge = map2 (\<lambda>x y. x XOR y) (keyed_hash f n k decommit1) h_decommit0\<rparr>, None))"
  unfolding RandomOTSender_Round1_def Let_def dec Marshal_enc [OF laws] sum.case
    Reset_Write Reset_Reset Digest_Read_keyed_hash
  by (simp add: xor_loop length_keyed_hash h_key_Write_Reset)

lemma Receiver_Round2_ok:
  assumes "length (Challenge msg) = n"
  shows "RandomOTReceiever_Round2 f n r msg =
     (let k = h_key (r_hash r);
          hh = keyed_hash f n k (keyed_hash f n k (r_randChoice r))
      in (r\<lparr>r_hash := Write (Reset (r_hash r)) (keyed_hash f n k (r_randChoice r)),
            r_receivedChallenge := Challenge msg, r_hh_randChoice := hh\<rparr>,
          \<lparr>Response = map2 (\<lambda>x y. x XOR (- r_choice r AND y)) hh (Challenge msg)\<rparr>))"
  unfolding RandomOTReceiever_Round2_def Let_def Reset_Write Reset_Reset Digest_Read_keyed_hash
    h_key_Write_Reset
  using assms by (simp add: mask_loop length_keyed_hash)

text \<open>
  The whole execution, for a curve that obeys \<open>curve_laws\<close>, a setup proof that
  verifies, a 32-byte nonce, a choice bit of 0 or 1 and a transmitted point that survives
  the wire: no step fails, and every value is the hash chain of the point \<open>a * B\<close>.
\<close>

lemma run_protocol_honest:
  assumes laws: "curve_laws C len"
    and sch: "Verify_Proof Z (NewProof Z hash (ActOnBase C b) b) hash (ActOnBase C b)"
    and nonce: "length nonce = 32"
    and vc: "valid_choice choice"
    and wire: "roundtrips C (if choice = 0 then ActOnBase C a else Add C (ActOnBase C a) (ActOnBase C b))"
  shows "\<exists>res m s.
           run_protocol Z C f n hash nonce b a choice =
             Inr (keyed_hash f n nonce (enc C (Act C a (ActOnBase C b))), res, m, s) \<and>
           (if choice = 0 then Rand0 res else Rand1 res) =
             keyed_hash f n nonce (enc C (Act C a (ActOnBase C b))) \<and>
           Response m = s_h_decommit0 s \<and>
           snd (snd (snd (RandomOTSender_Round2 n s m))) = None \<and>
           Response m =
             (let hh = keyed_hash f n nonce
                         (keyed_hash f n nonce (keyed_hash f n nonce (enc C (Act C a (ActOnBase C b)))));
                  challenge = map2 (\<lambda>x y. x XOR y) (keyed_hash f n nonce (s_decommit1 s)) (s_h_decommit0 s)
              in if choice = 0 then hh else map2 (\<lambda>x y. x XOR y) hh challenge)"
proof -
  define B where "B = ActOnBase C b"
  define h0 where "h0 = \<lparr>h_key = nonce, h_data = []\<rparr>"
  define P where "P = (if choice = 0 then ActOnBase C a else Add C (ActOnBase C a) B)"
  define pad where "pad = keyed_hash f n nonce (enc C (Act C a B))"
  define rand0 where "rand0 = keyed_hash f n nonce (enc C (Act C b P))"
  define rand1 where "rand1 = keyed_hash f n nonce (enc C (Sub C (Act C b P) (Act C b B)))"
  define d0 where "d0 = keyed_hash f n nonce rand0"
  define d1 where "d1 = keyed_hash f n nonce rand1"
  define hd0 where "hd0 = keyed_hash f n nonce d0"
  define hd1 where "hd1 = keyed_hash f n nonce d1"
  define ch where "ch = map2 (\<lambda>x y. x XOR y) hd1 hd0"
  define hh where "hh = keyed_hash f n nonce (keyed_hash f n nonce pad)"
  define resp where "resp = map2 (\<lambda>x y. x XOR (- choice AND y)) hh ch"
  define r0 :: "'a RandomOTReceiever" where
    "r0 = \<lparr>r_hash = h0, r_choice = choice, r_B = B, r_randChoice = zero_array n,
           r_receivedChallenge = zero_array n, r_hh_randChoice = zero_array n\<rparr>"
  define s0 :: "('a, 'b) RandomOTSender" where
    "s0 = \<lparr>s_hash = h0, s_b = b, s_B = B, s_bB = Act C b B,
           s_rand0 = zero_array n, s_rand1 = zero_array n,
           s_decommit0 = zero_array n, s_decommit1 = zero_array n,
           s_h_decommit0 = zero_array n\<rparr>"
  define r1 where "r1 = r0\<lparr>r_hash := Write h0 (enc C (Act C a B)), r_randChoice := pad\<rparr>"
  define s1 where
    "s1 = s0\<lparr>s_hash := Write (Reset h0) d1, s_rand0 := rand0, s_rand1 := rand1,
             s_decommit0 := d0, s_decommit1 := d1, s_h_decommit0 := hd0\<rparr>"
  define r2 where
    "r2 = r1\<lparr>r_hash := Write (Reset (r_hash r1)) (keyed_hash f n nonce pad),
             r_receivedChallenge := ch, r_hh_randChoice := hh\<rparr>"
  have len: "length hd0 = n" "length hd1 = n" "length hh = n" "length ch = n"
    by (simp_all add: hd0_def hd1_def hh_def ch_def length_keyed_hash)
  have snd_setup: "RandomOTSetupSend Z C hash b =
      (\<lparr>msg_B = B, msg_BProof = NewProof Z hash B b\<rparr>, \<lparr>ss_b = b, ss_B = B, ss_bB = Act C b B\<rparr>)"
    by (simp add: RandomOTSetupSend_def B_def Let_def)
  have recv: "RandomOTSetupReceive Z hash \<lparr>msg_B = B, msg_BProof = NewProof Z hash B b\<rparr> =
      Inr \<lparr>rs_B = B\<rparr>"
    using sch by (simp add: RandomOTSetupReceive_def B_def)
  have newS: "NewRandomOTSender n nonce \<lparr>ss_b = b, ss_B = B, ss_bB = Act C b B\<rparr> = Inr s0"
    using nonce by (simp add: NewRandomOTSender_def NewKeyed_def s0_def h0_def)
  have newR: "NewRandomOTReceiver n nonce \<lparr>rs_B = B\<rparr> choice = Inr r0"
    using nonce by (simp add: NewRandomOTReceiver_def NewKeyed_def r0_def h0_def)
  have R1: "RandomOTReceiever_Round1 C f n a r0 = (r1, \<lparr>ABytes = enc C P\<rparr>, None)"
    using Receiver_Round1_ok [OF laws, of r0 f n a] vc
    by (simp add: r0_def r1_def P_def pad_def h0_def Digest_Read_def Write_def keyed_hash_def)
  have dec: "UnmarshalBinary C (enc C P) = Inr P"
  proof -
    have "roundtrips C P" unfolding P_def B_def by (rule wire)
    then show ?thesis by (simp add: roundtrips_def Marshal_enc [OF laws])
  qed
  have S1: "RandomOTSender_Round1 C f n s0 \<lparr>ABytes = enc C P\<rparr> = (s1, \<lparr>Challenge = ch\<rparr>, None)"
    using Sender_Round1_ok [OF laws, of "\<lparr>ABytes = enc C P\<rparr>" P f n s0] dec
    by (simp add: s0_def s1_def h0_def Let_def rand0_def rand1_def d0_def d1_def hd0_def hd1_def ch_def)
  have comm: "Act C b (ActOnBase C a) = Act C a B"
    using laws by (simp add: curve_laws_def B_def)
  have algebra: "(if choice = 0 then rand0 else rand1) = pad"
  proof (cases "choice = 0")
    case True
    then show ?thesis by (simp add: rand0_def pad_def P_def comm)
  next
    case False
    have "Act C b (Add C (ActOnBase C a) B) = Add C (Act C b (ActOnBase C a)) (Act C b B)"
      using laws by (simp add: curve_laws_def)
    moreover have "Sub C (Add C (Act C b (ActOnBase C a)) (Act C b B)) (Act C b B) =
                   Act C b (ActOnBase C a)"
      using laws by (simp add: curve_laws_def)
    ultimately show ?thesis
      using False by (simp add: rand1_def pad_def P_def comm)
  qed
  have R2: "RandomOTReceiever_Round2 f n r1 \<lparr>Challenge = ch\<rparr> = (r2, \<lparr>Response = resp\<rparr>)"
    using Receiver_Round2_ok [of "\<lparr>Challenge = ch\<rparr>" n f r1] len
    by (simp add: r1_def r0_def r2_def h0_def Let_def hh_def resp_def Write_def)
  have hh_eq: "hh = (if choice = 0 then hd0 else hd1)"
    using algebra by (auto simp: hh_def hd0_def hd1_def d0_def d1_def)
  have resp_eq: "resp = hd0"
  proof (cases "choice = 0")
    case True
    then show ?thesis using len by (simp add: resp_def hh_eq map2_left)
  next
    case False
    with vc have c1: "choice = 1" by (simp add: valid_choice_def)
    show ?thesis
      using len by (simp add: resp_def hh_eq c1 ch_def map2_xor_cancel)
  qed
  have S2: "RandomOTSender_Round2 n s1 \<lparr>Response = resp\<rparr> =
      (s1, \<lparr>Decommit0 = d0, Decommit1 = d1\<rparr>, \<lparr>Rand0 = rand0, Rand1 = rand1\<rparr>, None)"
    by (simp add: RandomOTSender_Round2_def ConstantTimeCompare_def resp_eq s1_def s0_def)
  have key2: "h_key (r_hash r2) = nonce"
    by (simp add: r2_def r1_def r0_def h0_def Write_def Reset_def)
  have R3err: "snd (snd (RandomOTReceiever_Round3 f n r2 \<lparr>Decommit0 = d0, Decommit1 = d1\<rparr>)) = None"
  proof -
    have vc2: "valid_choice (r_choice r2)"
      using vc by (simp add: r2_def r1_def r0_def)
    have c2: "r_choice r2 = choice" "r_receivedChallenge r2 = ch" "r_hh_randChoice r2 = hh"
      by (simp_all add: r2_def r1_def r0_def)
    have "choice \<noteq> 0 \<Longrightarrow> choice = 1" using vc by (simp add: valid_choice_def)
    then show ?thesis
      unfolding Receiver_Round3_error [OF vc2] key2 c2
      by (auto simp: hd0_def [symmetric] hd1_def [symmetric] ch_def hh_eq map2_xor_commute)
  qed
  have R3pad: "fst (snd (RandomOTReceiever_Round3 f n r2 \<lparr>Decommit0 = d0, Decommit1 = d1\<rparr>)) = pad"
    by (simp add: Receiver_Round3_pad r2_def r1_def)
  obtain r3 where R3: "RandomOTReceiever_Round3 f n r2 \<lparr>Decommit0 = d0, Decommit1 = d1\<rparr> =
      (r3, pad, None)"
    using R3err R3pad by (metis prod.collapse)
  have run: "run_protocol Z C f n hash nonce b a choice =
      Inr (pad, \<lparr>Rand0 = rand0, Rand1 = rand1\<rparr>, \<lparr>Response = resp\<rparr>, s1)"
    unfolding run_protocol_def snd_setup prod.case recv sum.case newS newR R1 option.case S1 R2 S2 R3
    by (rule refl)
  have "Response \<lparr>Response = resp\<rparr> = s_h_decommit0 s1"
    by (simp add: resp_eq s1_def)
  moreover have "snd (snd (snd (RandomOTSender_Round2 n s1 \<lparr>Response = resp\<rparr>))) = None"
    by (simp add: S2)
  moreover have "(if choice = 0 then Rand0 \<lparr>Rand0 = rand0, Rand1 = rand1\<rparr>
                  else Rand1 \<lparr>Rand0 = rand0, Rand1 = rand1\<rparr>) = pad"
    using algebra by (simp split: if_splits)
  moreover have "Response \<lparr>Response = resp\<rparr> =
      (let hh' = keyed_hash f n nonce (keyed_hash f n nonce pad);
           challenge = map2 (\<lambda>x y. x XOR y) (keyed_hash f n nonce (s_decommit1 s1)) (s_h_decommit0 s1)
       in if choice = 0 then hh' else map2 (\<lambda>x y. x XOR y) hh' challenge)"
  proof (cases "choice = 0")
    case True
    then show ?thesis using len by (simp add: resp_def hh_def map2_left)
  next
    case False
    with vc have c1: "choice = 1" by (simp add: valid_choice_def)
    show ?thesis
      by (simp add: resp_def hh_def c1 s1_def ch_def hd1_def)
  qed
  ultimately show ?thesis
    using run unfolding pad_def B_def by blast
qed

text \<open>The small instance satisfies what the execution needs.\<close>

lemma byte_curve_laws: "curve_laws byte_curve 1"
  by (simp add: curve_laws_def byte_curve_def algebra_simps)

lemma byte_curve_roundtrips: "roundtrips byte_curve P"
  by (simp add: roundtrips_def byte_curve_def)

lemma byte_sch_complete:
  "Verify_Proof byte_sch (NewProof byte_sch h (ActOnBase byte_curve b) b) h (ActOnBase byte_curve b)"
  by (simp add: byte_sch_def)

text \<open>
  C1. In every honest end-to-end execution (one setup for both parties, the same nonce,
  both following the protocol) no step fails, and the pad that the receiver's round 3
  returns is the sender's \<open>Rand0\<close> when the choice is 0 and the sender's \<open>Rand1\<close> when
  the choice is 1.
\<close>

theorem honest_execution_delivers_chosen_pad:
  assumes "curve_laws C len"
    and "Verify_Proof Z (NewProof Z hash (ActOnBase C b) b) hash (ActOnBase C b)"
    and "length nonce = 32"
    and "valid_choice choice"
    and "roundtrips C (if choice = 0 then ActOnBase C a else Add C (ActOnBase C a) (ActOnBase C b))"
  shows "\<exists>pad res m s.
           run_protocol Z C f n hash nonce b a choice = Inr (pad, res, m, s) \<and>
           (choice = 0 \<longrightarrow> pad = Rand0 res) \<and> (choice = 1 \<longrightarrow> pad = Rand1 res)"
proof -
  obtain res m s where
    "run_protocol Z C f n hash nonce b a choice =
       Inr (keyed_hash f n nonce (enc C (Act C a (ActOnBase C b))), res, m, s)"
    "(if choice = 0 then Rand0 res else Rand1 res) =
       keyed_hash f n nonce (enc C (Act C a (ActOnBase C b)))"
    using run_protocol_honest [OF assms, of f n] by blast
  then show ?thesis by (intro exI [of _ res] exI [of _ m] exI [of _ s] exI) auto
qed

theorem honest_execution_delivers_chosen_pad_witness:
  "curve_laws byte_curve 1 \<and> length nonce32 = 32 \<and> valid_choice 0 \<and> valid_choice 1 \<and>
   roundtrips byte_curve (ActOnBase byte_curve 9) \<and>
   roundtrips byte_curve (Add byte_curve (ActOnBase byte_curve 9) (ActOnBase byte_curve 5)) \<and>
   (\<exists>pad res m s. run_protocol byte_sch byte_curve byte_xof 4 () nonce32 5 9 0 = Inr (pad, res, m, s) \<and>
      pad = Rand0 res) \<and>
   (\<exists>pad res m s. run_protocol byte_sch byte_curve byte_xof 4 () nonce32 5 9 1 = Inr (pad, res, m, s) \<and>
      pad = Rand1 res)"
proof -
  have n: "length nonce32 = 32" by (simp add: nonce32_def)
  have v0: "valid_choice 0" and v1: "valid_choice 1" by (simp_all add: valid_choice_def)
  have w0: "roundtrips byte_curve (if (0::byte) = 0 then ActOnBase byte_curve 9
              else Add byte_curve (ActOnBase byte_curve 9) (ActOnBase byte_curve 5))"
    and w1: "roundtrips byte_curve (if (1::byte) = 0 then ActOnBase byte_curve 9
              else Add byte_curve (ActOnBase byte_curve 9) (ActOnBase byte_curve 5))"
    by (rule byte_curve_roundtrips)+
  show ?thesis
    using byte_curve_laws n v0 v1 byte_curve_roundtrips
      honest_execution_delivers_chosen_pad
        [OF byte_curve_laws byte_sch_complete n v0 w0, where hash = "()" and f = byte_xof and n = 4]
      honest_execution_delivers_chosen_pad
        [OF byte_curve_laws byte_sch_complete n v1 w1, where hash = "()" and f = byte_xof and n = 4]
    by simp
qed

text \<open>
  C2. In every honest execution the response of the receiver's round 2 equals the
  \<open>h_decommit0\<close> that the sender cached in its round 1, for both values of the choice
  bit, so the comparison of the sender's round 2 accepts it. The response is
  \<open>H(H(randChoice))\<close> itself for choice 0 and \<open>H(H(randChoice))\<close> XORed with the challenge
  \<open>H(decommit1) XOR h_decommit0\<close> for choice 1, where the two equal hashes cancel.
\<close>

theorem honest_response_equals_h_decommit0:
  assumes "curve_laws C len"
    and "Verify_Proof Z (NewProof Z hash (ActOnBase C b) b) hash (ActOnBase C b)"
    and "length nonce = 32"
    and "valid_choice choice"
    and "roundtrips C (if choice = 0 then ActOnBase C a else Add C (ActOnBase C a) (ActOnBase C b))"
  shows "\<exists>pad res m s.
           run_protocol Z C f n hash nonce b a choice = Inr (pad, res, m, s) \<and>
           Response m = s_h_decommit0 s \<and>
           snd (snd (snd (RandomOTSender_Round2 n s m))) = None \<and>
           Response m =
             (let hh = keyed_hash f n nonce (keyed_hash f n nonce pad);
                  challenge = map2 (\<lambda>x y. x XOR y) (keyed_hash f n nonce (s_decommit1 s)) (s_h_decommit0 s)
              in if choice = 0 then hh else map2 (\<lambda>x y. x XOR y) hh challenge)"
  using run_protocol_honest [OF assms, of f n] by blast

theorem honest_response_equals_h_decommit0_witness:
  "curve_laws byte_curve 1 \<and> length nonce32 = 32 \<and> valid_choice 0 \<and> valid_choice 1 \<and>
   roundtrips byte_curve (ActOnBase byte_curve 9) \<and>
   roundtrips byte_curve (Add byte_curve (ActOnBase byte_curve 9) (ActOnBase byte_curve 5)) \<and>
   (\<exists>pad res m s. run_protocol byte_sch byte_curve byte_xof 4 () nonce32 5 9 0 = Inr (pad, res, m, s) \<and>
      Response m = s_h_decommit0 s \<and> snd (snd (snd (RandomOTSender_Round2 4 s m))) = None) \<and>
   (\<exists>pad res m s. run_protocol byte_sch byte_curve byte_xof 4 () nonce32 5 9 1 = Inr (pad, res, m, s) \<and>
      Response m = s_h_decommit0 s \<and> snd (snd (snd (RandomOTSender_Round2 4 s m))) = None)"
proof -
  have n: "length nonce32 = 32" by (simp add: nonce32_def)
  have v0: "valid_choice 0" and v1: "valid_choice 1" by (simp_all add: valid_choice_def)
  have w0: "roundtrips byte_curve (if (0::byte) = 0 then ActOnBase byte_curve 9
              else Add byte_curve (ActOnBase byte_curve 9) (ActOnBase byte_curve 5))"
    and w1: "roundtrips byte_curve (if (1::byte) = 0 then ActOnBase byte_curve 9
              else Add byte_curve (ActOnBase byte_curve 9) (ActOnBase byte_curve 5))"
    by (rule byte_curve_roundtrips)+
  show ?thesis
    using byte_curve_laws n v0 v1 byte_curve_roundtrips
      honest_response_equals_h_decommit0
        [OF byte_curve_laws byte_sch_complete n v0 w0, where hash = "()" and f = byte_xof and n = 4]
      honest_response_equals_h_decommit0
        [OF byte_curve_laws byte_sch_complete n v1 w1, where hash = "()" and f = byte_xof and n = 4]
    by simp blast
qed

section \<open>Signatures: verification\<close>

text \<open>\<open>Verify\<close> inverts a copy: every scalar object that existed before the call keeps its value.\<close>

lemma Verify_keeps_scalars:
  "a < length \<sigma> \<Longrightarrow> fst (Verify C E \<sigma> sig X hash) ! a = \<sigma> ! a"
  by (simp add: Verify_def Let_def nth_append)

text \<open>
  C7. For a signature \<open>(R, S)\<close>, a public key \<open>X\<close> and a message hash, \<open>Verify\<close> returns
  whether the point \<open>S\<^sup>-\<^sup>1 * (m * G + r * X)\<close> equals the point \<open>R\<close>, with \<open>m\<close> the scalar of
  the hash and \<open>r\<close> the scalar of the X coordinate of \<open>R\<close>: the comparison is between curve
  points, and the result is a function of the inputs alone.
\<close>

theorem Verify_checks_point_identity:
  assumes "sig_S sig < length \<sigma>"
  shows "snd (Verify C E \<sigma> sig X hash) =
     Equal C (Act C (Invert C (\<sigma> ! sig_S sig))
                (Add C (ActOnBase C (FromHash C hash)) (Act C (XScalar E (sig_R sig)) X)))
             (sig_R sig)"
  using assms by (simp add: Verify_def Let_def nth_append)

theorem Verify_checks_point_identity_witness:
  "sig_S \<lparr>sig_R = 7 :: byte, sig_S = 0\<rparr> < length [3 :: byte] \<and>
   snd (Verify byte_curve byte_repr [3] \<lparr>sig_R = 7, sig_S = 0\<rparr> 5 [1, 2]) =
     ((3 :: byte) ^ 63 * (2 + 7 * 5) = 7)"
proof -
  have h: "sig_S \<lparr>sig_R = 7 :: byte, sig_S = 0\<rparr> < length [3 :: byte]" by simp
  show ?thesis
    using h Verify_checks_point_identity [OF h, of byte_curve byte_repr 5 "[1, 2]"]
    by (simp add: byte_curve_def byte_repr_def)
qed

section \<open>Signatures: the compact encoding\<close>

text \<open>
  What the two definitions of \<open>ToCompactEth\<close> return when the accessors give 32 bytes.
  The first never negates \<open>S\<close> and sets the flag by \<open>S\<close>; the second negates \<open>S\<close> and
  sets the flag by the X coordinate of \<open>R\<close>.
\<close>

lemma copy_slice_layout:
  "length xb = 32 \<Longrightarrow> length sb = 32 \<Longrightarrow>
   (copy_slice (copy_slice (replicate compactSigSize 0) 0 32 xb) 32 64 sb)[64 := v] = xb @ sb @ [v]"
  by (simp add: copy_slice_def compactSigSize_def list_update_append)

lemma ToCompactEth_layout:
  assumes "length (XBytes E (sig_R sig)) = 32" "length (Bytes E (\<sigma> ! sig_S sig)) = 32"
  shows "ToCompactEth E \<sigma> sig =
     (\<sigma>, XBytes E (sig_R sig) @ Bytes E (\<sigma> ! sig_S sig) @
         [ucast (IsOddYBit E (sig_R sig)) XOR (if IsOverHalfOrder E (\<sigma> ! sig_S sig) then 1 else 0)])"
  using assms by (simp add: ToCompactEth_def Let_def copy_slice_layout)

lemma ToCompactEth2_layout:
  assumes "length (XBytes E (sig_R sig)) = 32"
    and "length (Bytes E (\<sigma> ! sig_S sig)) = 32"
    and "length (Bytes E (Negate E (\<sigma> ! sig_S sig))) = 32"
    and "sig_S sig < length \<sigma>"
  shows "ToCompactEth2 E \<sigma> sig =
     (if IsOverHalfOrder E (XScalar E (sig_R sig))
      then (\<sigma>[sig_S sig := Negate E (\<sigma> ! sig_S sig)],
            XBytes E (sig_R sig) @ Bytes E (Negate E (\<sigma> ! sig_S sig)) @
              [ucast (IsOddYBit E (sig_R sig)) XOR 1])
      else (\<sigma>, XBytes E (sig_R sig) @ Bytes E (\<sigma> ! sig_S sig) @
              [ucast (IsOddYBit E (sig_R sig))]))"
  using assms by (simp add: ToCompactEth2_def Let_def copy_slice_layout)

lemma ToCompactEth_keeps_store: "fst (ToCompactEth E \<sigma> sig) = \<sigma>"
  by (simp add: ToCompactEth_def Let_def)

text \<open>The secp256k1 accessors on the inputs used below.\<close>

lemma length_be32: "length (be32 x) = 32"
  by (simp add: be32_def)

lemma be32_last: "be32 x ! 31 = of_nat x"
proof -
  have "be32 x ! 31 = (map (\<lambda>i. of_nat (x div 256 ^ (31 - i))) [0..<32]) ! 31"
    by (simp add: be32_def)
  also have "\<dots> = of_nat (x div 256 ^ (31 - 31))"
    by (subst nth_map) simp_all
  finally show ?thesis by simp
qed

lemma secp256k1_over: "IsOverHalfOrder secp256k1_repr (secp256k1_N - 1)"
  by (simp add: secp256k1_repr_def secp256k1_N_def)

lemma secp256k1_G_low: "\<not> IsOverHalfOrder secp256k1_repr (XScalar secp256k1_repr secp256k1_G)"
  by (simp add: secp256k1_repr_def secp256k1_N_def secp256k1_G_def)

lemma secp256k1_2G_over: "IsOverHalfOrder secp256k1_repr (XScalar secp256k1_repr secp256k1_2G)"
  by (simp add: secp256k1_repr_def secp256k1_N_def secp256k1_2G_def)

lemma secp256k1_neg: "Negate secp256k1_repr (secp256k1_N - 1) = 1"
  "Negate secp256k1_repr 1 = secp256k1_N - 1"
  by (simp_all add: secp256k1_repr_def secp256k1_N_def)

lemma secp256k1_G_even: "IsOddYBit secp256k1_repr secp256k1_G = 0"
  by (simp add: secp256k1_repr_def secp256k1_G_def)

lemma secp256k1_bytes: "XBytes secp256k1_repr P = be32 (fst P)" "Bytes secp256k1_repr s = be32 s"
  by (simp_all add: secp256k1_repr_def)

text \<open>
  C3. The claim: \<open>ToCompactEth\<close> returns 65 bytes, the X coordinate of \<open>R\<close>, then \<open>S\<close> in its
  low form (negated exactly when it exceeds half the group order), then the parity of
  \<open>R\<close>'s Y coordinate XORed with a flag set exactly when \<open>S\<close> was negated. On the
  signature with \<open>R\<close> the generator and \<open>S = N - 1\<close>, which exceeds half the order, both
  definitions write \<open>N - 1\<close> itself (last byte 0x40) where the low form is 1 (last byte
  0x01); the second also leaves the recovery id at 0.
\<close>

theorem ToCompactEth_not_low_S:
  "snd (ToCompactEth secp256k1_repr [secp256k1_N - 1] \<lparr>sig_R = secp256k1_G, sig_S = 0\<rparr>) =
     be32 (fst secp256k1_G) @ be32 (secp256k1_N - 1) @ [1] \<and>
   snd (ToCompactEth2 secp256k1_repr [secp256k1_N - 1] \<lparr>sig_R = secp256k1_G, sig_S = 0\<rparr>) =
     be32 (fst secp256k1_G) @ be32 (secp256k1_N - 1) @ [0] \<and>
   compact_spec secp256k1_repr secp256k1_G (secp256k1_N - 1) =
     be32 (fst secp256k1_G) @ be32 1 @ [1] \<and>
   be32 (secp256k1_N - 1) ! 31 = 0x40 \<and> be32 1 ! 31 = 0x01"
proof -
  let ?sig = "\<lparr>sig_R = secp256k1_G, sig_S = 0\<rparr>"
  have a: "snd (ToCompactEth secp256k1_repr [secp256k1_N - 1] ?sig) =
      be32 (fst secp256k1_G) @ be32 (secp256k1_N - 1) @ [1]"
    by (simp add: ToCompactEth_layout secp256k1_bytes length_be32 secp256k1_over secp256k1_G_even del: One_nat_def)
  have b: "snd (ToCompactEth2 secp256k1_repr [secp256k1_N - 1] ?sig) =
      be32 (fst secp256k1_G) @ be32 (secp256k1_N - 1) @ [0]"
    by (simp add: ToCompactEth2_layout secp256k1_bytes length_be32 secp256k1_G_low secp256k1_G_even)
  have c: "compact_spec secp256k1_repr secp256k1_G (secp256k1_N - 1) =
      be32 (fst secp256k1_G) @ be32 1 @ [1]"
    by (simp add: compact_spec_def Let_def secp256k1_bytes secp256k1_over secp256k1_neg secp256k1_G_even del: One_nat_def)
  have d: "be32 (secp256k1_N - 1) ! 31 = 0x40" "be32 1 ! 31 = 0x01"
    by (simp_all add: be32_last secp256k1_N_def)
  from a b c d show ?thesis by simp
qed

text \<open>
  C10. The claim: \<open>ToCompactEth\<close> leaves the signature's \<open>R\<close> and \<open>S\<close> as they were. The
  second definition negates the scalar object that the signature refers to: on the
  signature with \<open>R\<close> the double of the generator, whose X coordinate exceeds half the
  order, and \<open>S = 1\<close>, the signature's \<open>S\<close> is \<open>N - 1\<close> after the call.
\<close>

theorem ToCompactEth2_negates_shared_scalar:
  "fst (ToCompactEth2 secp256k1_repr [1] \<lparr>sig_R = secp256k1_2G, sig_S = 0\<rparr>) = [secp256k1_N - 1] \<and>
   secp256k1_N - 1 \<noteq> 1"
proof -
  have "fst (ToCompactEth2 secp256k1_repr [1] \<lparr>sig_R = secp256k1_2G, sig_S = 0\<rparr>) = [secp256k1_N - 1]"
    by (simp add: ToCompactEth2_layout secp256k1_bytes length_be32 secp256k1_2G_over secp256k1_neg del: One_nat_def)
  moreover have "secp256k1_N - 1 \<noteq> 1" by (simp add: secp256k1_N_def)
  ultimately show ?thesis by simp
qed

end
